theory Spec2Isabelle
  imports Main
begin

section \<open>Time\<close>

text \<open>
  \<^verbatim>\<open>datetime.now()\<close> returns a naive local datetime with microsecond resolution. A
  datetime is modelled as the number of microseconds since the first instant a datetime
  can hold, a timedelta as a number of microseconds, and \<^verbatim>\<open>.date()\<close> as the number of
  whole days.
\<close>

type_synonym datetime = int

definition date :: "datetime \<Rightarrow> int" where
  "date t = t div 86400000000"

definition one_minute :: int where
  \<comment> \<open>\<^verbatim>\<open>timedelta(minutes=1)\<close>\<close>
  "one_minute = 60000000"

definition one_day :: int where
  \<comment> \<open>\<^verbatim>\<open>timedelta(hours=24)\<close>\<close>
  "one_day = 86400000000"

section \<open>Quota tracking\<close>

text \<open>
  \<^verbatim>\<open>st.session_state.quota_usage\<close> is a dictionary with the keys \<^verbatim>\<open>daily\<close>,
  \<^verbatim>\<open>per_minute\<close> and \<^verbatim>\<open>last_reset\<close>; the key \<^verbatim>\<open>minute_reset\<close> is absent until
  something stores it, which is why that field is optional.
\<close>

record quota =
  daily :: int
  per_minute :: int
  last_reset :: datetime
  minute_reset :: "datetime option"

definition initial_quota :: "datetime \<Rightarrow> quota" where
  \<comment> \<open>line 71: \<^verbatim>\<open>{'daily': 0, 'per_minute': 0, 'last_reset': datetime.now()}\<close>\<close>
  "initial_quota t = \<lparr>daily = 0, per_minute = 0, last_reset = t, minute_reset = None\<rparr>"

definition daily_limit :: int where
  "daily_limit = 2000"

definition minute_limit :: int where
  "minute_limit = 600"

definition reset_daily :: "datetime \<Rightarrow> quota \<Rightarrow> quota" where
  \<comment> \<open>lines 88-90\<close>
  "reset_daily now q =
     (if date now > date (last_reset q) then q\<lparr>daily := 0, last_reset := now\<rparr> else q)"

definition reset_minute :: "datetime \<Rightarrow> quota \<Rightarrow> quota" where
  \<comment> \<open>lines 97-99; \<^verbatim>\<open>.get('minute_reset', now)\<close> falls back to \<open>now\<close> itself\<close>
  "reset_minute now q =
     (if now - (case minute_reset q of None \<Rightarrow> now | Some m \<Rightarrow> m) > one_minute
      then q\<lparr>per_minute := 0, minute_reset := Some now\<rparr> else q)"

definition check_quota_at :: "datetime \<Rightarrow> quota \<Rightarrow> bool \<times> quota" where
  \<comment> \<open>the body of \<^verbatim>\<open>check_quota\<close> after \<^verbatim>\<open>now = datetime.now()\<close>\<close>
  "check_quota_at now q =
     (let q1 = reset_daily now q in
      if daily q1 \<ge> daily_limit then (False, q1)
      else
        let q2 = reset_minute now q1 in
        if per_minute q2 \<ge> minute_limit then (False, q2)
        else (True, q2))"

definition update_quota :: "quota \<Rightarrow> quota" where
  "update_quota q = q\<lparr>daily := daily q + 1, per_minute := per_minute q + 1\<rparr>"

definition within_limits :: "quota \<Rightarrow> bool" where
  "within_limits q = (daily q \<le> daily_limit \<and> per_minute q \<le> minute_limit)"

section \<open>Python values\<close>

text \<open>
  The inspection response and the error body are JSON documents read with Python's
  dynamic operations. \<open>JNum\<close> stands for every number: no operation used here tells an
  integer from a float. A dictionary is an association list read with \<open>map_of\<close>.
\<close>

datatype json =
    JNull
  | JBool bool
  | JNum int
  | JStr string
  | JArr "json list"
  | JObj "(string \<times> json) list"

datatype error =
    QuotaError
      \<comment> \<open>line 124: \<^verbatim>\<open>Exception("Quota limit reached. Please try again later.")\<close>\<close>
  | ApiError json
      \<comment> \<open>line 148: \<^verbatim>\<open>Exception(f"API Error: {m}")\<close>, carrying the interpolated \<open>m\<close>\<close>
  | ValueError
      \<comment> \<open>\<^verbatim>\<open>json.loads(e.content.decode())\<close> raising (JSONDecodeError, UnicodeDecodeError)\<close>
  | AttributeError
  | TypeError
  | KeyError
  | OtherError string
      \<comment> \<open>any other exception raised by the remote call, with its \<^verbatim>\<open>str()\<close>\<close>

definition and_then :: "error + 'a \<Rightarrow> ('a \<Rightarrow> error + 'b) \<Rightarrow> error + 'b" where
  "and_then r f = (case r of Inl e \<Rightarrow> Inl e | Inr v \<Rightarrow> f v)"

fun contains_str :: "string \<Rightarrow> string \<Rightarrow> bool" where
  "contains_str sub [] = (sub = [])"
| "contains_str sub (c # cs) = (take (length sub) (c # cs) = sub \<or> contains_str sub cs)"

definition dict_get :: "(string \<times> json) list \<Rightarrow> string \<Rightarrow> json \<Rightarrow> json" where
  \<comment> \<open>\<^verbatim>\<open>d.get(key, default)\<close> on a value known to be a dict\<close>
  "dict_get d key dflt = (case map_of d key of None \<Rightarrow> dflt | Some v \<Rightarrow> v)"

fun py_get :: "json \<Rightarrow> string \<Rightarrow> json \<Rightarrow> error + json" where
  \<comment> \<open>\<^verbatim>\<open>x.get(key, default)\<close>: only a dict has the method\<close>
  "py_get (JObj d) key dflt = Inr (dict_get d key dflt)"
| "py_get _ key dflt = Inl AttributeError"

fun py_contains :: "string \<Rightarrow> json \<Rightarrow> error + bool" where
  \<comment> \<open>\<^verbatim>\<open>key in x\<close> for a str \<open>key\<close>\<close>
  "py_contains key (JObj d) = Inr (key \<in> set (map fst d))"
| "py_contains key (JArr xs) = Inr (JStr key \<in> set xs)"
| "py_contains key (JStr s) = Inr (contains_str key s)"
| "py_contains key _ = Inl TypeError"

fun py_getitem :: "json \<Rightarrow> string \<Rightarrow> error + json" where
  \<comment> \<open>\<^verbatim>\<open>x[key]\<close> for a str \<open>key\<close>\<close>
  "py_getitem (JObj d) key = (case map_of d key of None \<Rightarrow> Inl KeyError | Some v \<Rightarrow> Inr v)"
| "py_getitem _ key = Inl TypeError"

fun py_iter :: "json \<Rightarrow> error + json list" where
  \<comment> \<open>the items a \<^verbatim>\<open>for\<close> loop over \<open>x\<close> yields\<close>
  "py_iter (JArr xs) = Inr xs"
| "py_iter (JObj d) = Inr (map JStr (remdups (map fst d)))"
| "py_iter (JStr s) = Inr (map (\<lambda>c. JStr [c]) s)"
| "py_iter _ = Inl TypeError"

fun map_result :: "('a \<Rightarrow> error + 'b) \<Rightarrow> 'a list \<Rightarrow> error + 'b list" where
  "map_result f [] = Inr []"
| "map_result f (x # xs) =
     and_then (f x) (\<lambda>y. and_then (map_result f xs) (\<lambda>ys. Inr (y # ys)))"

fun join :: "string \<Rightarrow> string list \<Rightarrow> string" where
  "join sep [] = []"
| "join sep [x] = x"
| "join sep (x # y # ys) = x @ sep @ join sep (y # ys)"

fun as_str :: "json \<Rightarrow> error + string" where
  \<comment> \<open>\<^verbatim>\<open>str.join\<close> accepts str items only\<close>
  "as_str (JStr s) = Inr s"
| "as_str _ = Inl TypeError"

definition py_join :: "string \<Rightarrow> json list \<Rightarrow> error + string" where
  "py_join sep items = and_then (map_result as_str items) (\<lambda>ss. Inr (join sep ss))"

section \<open>Flattening an outcome\<close>

text \<open>
  \<^verbatim>\<open>parse_inspection_result\<close> takes an outcome as the dictionary \<^verbatim>\<open>batch_inspect\<close> built
  and reads its keys \<^verbatim>\<open>url\<close> and \<^verbatim>\<open>data\<close>. The fields of the flat record hold whatever
  values the response has under the keys read, so they are JSON values.
\<close>

record flat_record =
  inspection_url :: json
  inspection_result_link :: json
  verdict :: json
  coverage_state :: json
  indexing_state :: json
  last_crawl_time :: json
  page_fetch_state :: json
  robots_txt_state :: json
  user_canonical :: json
  google_canonical :: json
  mobile_verdict :: json
  rich_results_verdict :: json
  rich_results_detected :: json
  crawled_as :: json

definition index_status :: "json \<Rightarrow> flat_record \<Rightarrow> error + flat_record" where
  \<comment> \<open>lines 230-240\<close>
  "index_status inspection parsed =
     and_then (py_contains ''indexStatusResult'' inspection) (\<lambda>present.
     if \<not> present then Inr parsed else
     and_then (py_getitem inspection ''indexStatusResult'') (\<lambda>idx_status.
     and_then (py_get idx_status ''verdict'' (JStr '''')) (\<lambda>v1.
     and_then (py_get idx_status ''coverageState'' (JStr '''')) (\<lambda>v2.
     and_then (py_get idx_status ''indexingState'' (JStr '''')) (\<lambda>v3.
     and_then (py_get idx_status ''lastCrawlTime'' (JStr '''')) (\<lambda>v4.
     and_then (py_get idx_status ''pageFetchState'' (JStr '''')) (\<lambda>v5.
     and_then (py_get idx_status ''robotsTxtState'' (JStr '''')) (\<lambda>v6.
     and_then (py_get idx_status ''userCanonical'' (JStr '''')) (\<lambda>v7.
     and_then (py_get idx_status ''googleCanonical'' (JStr '''')) (\<lambda>v8.
     and_then (py_get idx_status ''crawledAs'' (JStr '''')) (\<lambda>v9.
     Inr (parsed\<lparr>verdict := v1, coverage_state := v2, indexing_state := v3,
                  last_crawl_time := v4, page_fetch_state := v5, robots_txt_state := v6,
                  user_canonical := v7, google_canonical := v8,
                  crawled_as := v9\<rparr>))))))))))))"

definition mobile_usability :: "json \<Rightarrow> flat_record \<Rightarrow> error + flat_record" where
  \<comment> \<open>lines 243-244\<close>
  "mobile_usability inspection parsed =
     and_then (py_contains ''mobileUsabilityResult'' inspection) (\<lambda>present.
     if \<not> present then Inr parsed else
     and_then (py_getitem inspection ''mobileUsabilityResult'') (\<lambda>mobile.
     and_then (py_get mobile ''verdict'' (JStr '''')) (\<lambda>v.
     Inr (parsed\<lparr>mobile_verdict := v\<rparr>))))"

definition rich_results :: "json \<Rightarrow> flat_record \<Rightarrow> error + flat_record" where
  \<comment> \<open>lines 247-251\<close>
  "rich_results inspection parsed =
     and_then (py_contains ''richResultsResult'' inspection) (\<lambda>present.
     if \<not> present then Inr parsed else
     and_then (py_getitem inspection ''richResultsResult'') (\<lambda>rich.
     and_then (py_get rich ''verdict'' (JStr '''')) (\<lambda>v.
     and_then (py_get rich ''detectedItems'' (JArr [])) (\<lambda>detected_items.
     and_then (py_iter detected_items) (\<lambda>items.
     and_then (map_result (\<lambda>item. py_get item ''richResultType'' (JStr '''')) items) (\<lambda>types.
     and_then (py_join '', '' types) (\<lambda>joined.
     Inr (parsed\<lparr>rich_results_verdict := v,
                  rich_results_detected := JStr joined\<rparr>))))))))"

definition parse_inspection_result :: "(string \<times> json) list \<Rightarrow> error + flat_record" where
  "parse_inspection_result result =
     (let parsed = \<lparr>inspection_url = dict_get result ''url'' (JStr ''''),
                    inspection_result_link = JStr '''', verdict = JStr '''',
                    coverage_state = JStr '''', indexing_state = JStr '''',
                    last_crawl_time = JStr '''', page_fetch_state = JStr '''',
                    robots_txt_state = JStr '''', user_canonical = JStr '''',
                    google_canonical = JStr '''', mobile_verdict = JStr '''',
                    rich_results_verdict = JStr '''', rich_results_detected = JStr '''',
                    crawled_as = JStr ''''\<rparr>
      in
      and_then (py_contains ''inspectionResult'' (dict_get result ''data'' (JObj []))) (\<lambda>present.
      if \<not> present then Inr parsed else
      and_then (py_getitem (JObj result) ''data'') (\<lambda>d.
      and_then (py_getitem d ''inspectionResult'') (\<lambda>inspection.
      and_then (py_get inspection ''inspectionResultLink'' (JStr '''')) (\<lambda>link.
      and_then (index_status inspection (parsed\<lparr>inspection_result_link := link\<rparr>)) (\<lambda>parsed1.
      and_then (mobile_usability inspection parsed1) (\<lambda>parsed2.
      rich_results inspection parsed2)))))))"

section \<open>Session state and environment\<close>

text \<open>
  The program reads the clock and calls the remote inspection service. Both are taken
  from an environment: \<open>clock e k\<close> is what the \<open>k\<close>-th \<^verbatim>\<open>datetime.now()\<close> of the
  session returns, and \<open>execute e k request\<close> is how the \<open>k\<close>-th
  \<^verbatim>\<open>service.urlInspection().index().inspect(body=request).execute()\<close> ends. The
  session counts both, so that a remote call is visible in the state. \<^verbatim>\<open>hashlib.md5\<close>
  is a parameter too.
\<close>

datatype reply =
    Response json
      \<comment> \<open>the call returns this response\<close>
  | HttpError "json option"
      \<comment> \<open>the call raises HttpError; the argument is \<^verbatim>\<open>json.loads(e.content.decode())\<close>,
          \<open>None\<close> when that raises\<close>
  | Raised string
      \<comment> \<open>the call raises another exception, with this \<^verbatim>\<open>str()\<close>\<close>

record env =
  md5_hexdigest :: "string \<Rightarrow> string"
  clock :: "nat \<Rightarrow> datetime"
  execute :: "nat \<Rightarrow> json \<Rightarrow> reply"

record cache_entry =
  data :: json
  timestamp :: datetime

record session =
  quota_usage :: quota
  cache :: "string \<rightharpoonup> cache_entry"
  clock_reads :: nat
  remote_calls :: nat
  slept :: "nat list"
    \<comment> \<open>the \<^verbatim>\<open>time.sleep\<close> calls so far in milliseconds, the latest first\<close>
  progress :: "(nat \<times> nat) list"
    \<comment> \<open>the \<^verbatim>\<open>progress_callback\<close> calls so far as (i + 1, total), the latest first\<close>

definition datetime_now :: "env \<Rightarrow> session \<Rightarrow> datetime \<times> session" where
  "datetime_now e s = (clock e (clock_reads s), s\<lparr>clock_reads := clock_reads s + 1\<rparr>)"

definition sleep :: "nat \<Rightarrow> session \<Rightarrow> session" where
  "sleep ms s = s\<lparr>slept := ms # slept s\<rparr>"

section \<open>GSCInspector\<close>

definition get_cache_key :: "env \<Rightarrow> string \<Rightarrow> string \<Rightarrow> string" where
  "get_cache_key e site_url page_url =
     md5_hexdigest e (site_url @ '':'' @ page_url)"

definition check_quota :: "env \<Rightarrow> session \<Rightarrow> bool \<times> session" where
  "check_quota e s =
     (let (now, s1) = datetime_now e s;
          (ok, q) = check_quota_at now (quota_usage s1)
      in (ok, s1\<lparr>quota_usage := q\<rparr>))"

definition api_error :: "json option \<Rightarrow> error" where
  \<comment> \<open>lines 146-148: the exception that leaves the \<^verbatim>\<open>except HttpError\<close> block\<close>
  "api_error body =
     (case body of
        None \<Rightarrow> ValueError
      | Some error_content \<Rightarrow>
          (case py_get error_content ''error'' (JObj []) of
             Inl x \<Rightarrow> x
           | Inr err \<Rightarrow>
               (case py_get err ''message'' (JStr ''Unknown error'') of
                  Inl x \<Rightarrow> x
                | Inr m \<Rightarrow> ApiError m)))"

definition request_body :: "string \<Rightarrow> string \<Rightarrow> json" where
  "request_body site_url page_url =
     JObj [(''siteUrl'', JStr site_url), (''inspectionUrl'', JStr page_url),
           (''languageCode'', JStr ''en-US'')]"

definition inspect_remote ::
  "env \<Rightarrow> string \<Rightarrow> string \<Rightarrow> string \<Rightarrow> session \<Rightarrow> (error + json) \<times> session" where
  \<comment> \<open>lines 122-148: \<^verbatim>\<open>inspect_url\<close> from the quota check on\<close>
  "inspect_remote e cache_key site_url page_url s =
     (let (ok, s1) = check_quota e s in
      if \<not> ok then (Inl QuotaError, s1)
      else
        let r = execute e (remote_calls s1) (request_body site_url page_url);
            s2 = s1\<lparr>remote_calls := remote_calls s1 + 1\<rparr>
        in case r of
             Response response \<Rightarrow>
               let s3 = s2\<lparr>quota_usage := update_quota (quota_usage s2)\<rparr>;
                   (now, s4) = datetime_now e s3
               in (Inr response,
                   s4\<lparr>cache := (cache s4)(cache_key \<mapsto> \<lparr>data = response, timestamp = now\<rparr>)\<rparr>)
           | HttpError body \<Rightarrow> (Inl (api_error body), s2)
           | Raised msg \<Rightarrow> (Inl (OtherError msg), s2))"

definition inspect_url ::
  "env \<Rightarrow> string \<Rightarrow> string \<Rightarrow> bool \<Rightarrow> session \<Rightarrow> (error + json) \<times> session" where
  "inspect_url e site_url page_url use_cache s =
     (let cache_key = get_cache_key e site_url page_url in
      case (if use_cache then cache s cache_key else None) of
        None \<Rightarrow> inspect_remote e cache_key site_url page_url s
      | Some cached_data \<Rightarrow>
          let (now, s1) = datetime_now e s in
          if now - timestamp cached_data < one_day then (Inr (data cached_data), s1)
          else inspect_remote e cache_key site_url page_url s1)"

datatype outcome =
    Success (url: string) (payload: json) (stamp: datetime)
      \<comment> \<open>\<^verbatim>\<open>{'url', 'status': 'success', 'data', 'timestamp'}\<close>\<close>
  | Failure (url: string) (raised: error) (stamp: datetime)
      \<comment> \<open>\<^verbatim>\<open>{'url', 'status': 'error', 'error': str(e), 'timestamp'}\<close>\<close>

fun status :: "outcome \<Rightarrow> string" where
  "status (Success _ _ _) = ''success''"
| "status (Failure _ _ _) = ''error''"

definition throttle :: "env \<Rightarrow> session \<Rightarrow> session" where
  \<comment> \<open>lines 158-161\<close>
  "throttle e s =
     (if per_minute (quota_usage s) \<ge> minute_limit - 10 then
        let s1 = sleep 60000 s;
            s2 = s1\<lparr>quota_usage := (quota_usage s1)\<lparr>per_minute := 0\<rparr>\<rparr>;
            (now, s3) = datetime_now e s2
        in s3\<lparr>quota_usage := (quota_usage s3)\<lparr>minute_reset := Some now\<rparr>\<rparr>
      else s)"

definition record_outcome ::
  "env \<Rightarrow> string \<Rightarrow> (error + json) \<times> session \<Rightarrow> outcome \<times> session" where
  \<comment> \<open>lines 164-180: what the loop body appends once \<^verbatim>\<open>inspect_url\<close> has ended\<close>
  "record_outcome e u rs =
     (case rs of
        (Inr result, s1) \<Rightarrow>
          let (now, s2) = datetime_now e s1 in (Success u result now, sleep 100 s2)
      | (Inl ex, s1) \<Rightarrow>
          let (now, s2) = datetime_now e s1 in (Failure u ex now, s2))"

definition inspect_one :: "env \<Rightarrow> string \<Rightarrow> string \<Rightarrow> session \<Rightarrow> outcome \<times> session" where
  \<comment> \<open>lines 156-180: the \<^verbatim>\<open>try\<close> statement of the loop body\<close>
  "inspect_one e site_url u s =
     record_outcome e u (inspect_url e site_url u True (throttle e s))"

fun batch_loop ::
  "env \<Rightarrow> string \<Rightarrow> nat \<Rightarrow> nat \<Rightarrow> string list \<Rightarrow> outcome list \<Rightarrow> session
     \<Rightarrow> outcome list \<times> session" where
  "batch_loop e site_url total_urls i [] results s = (results, s)"
| "batch_loop e site_url total_urls i (u # urls) results s =
     (let (r, s1) = inspect_one e site_url u s;
          s2 = s1\<lparr>progress := (i + 1, total_urls) # progress s1\<rparr>
      in batch_loop e site_url total_urls (i + 1) urls (results @ [r]) s2)"

definition batch_inspect ::
  "env \<Rightarrow> string \<Rightarrow> string list \<Rightarrow> session \<Rightarrow> outcome list \<times> session" where
  "batch_inspect e site_url urls s = batch_loop e site_url (length urls) 0 urls [] s"

section \<open>Concrete environments and sessions\<close>

text \<open>
  Inputs for the closed theorems below. The stand-in for the digest is the identity, so
  the cache key of site \<^verbatim>\<open>site\<close> and URL \<^verbatim>\<open>u\<close> is \<^verbatim>\<open>site:u\<close>.
\<close>

definition env0 :: env where
  \<comment> \<open>the clock advances one second per reading; every remote call returns an empty response\<close>
  "env0 = \<lparr>md5_hexdigest = (\<lambda>x. x), clock = (\<lambda>k. int k * 1000000),
           execute = (\<lambda>k request. Response (JObj []))\<rparr>"

definition session0 :: session where
  \<comment> \<open>lines 68-71: the session as the program initialises it\<close>
  "session0 = \<lparr>quota_usage = initial_quota 0, cache = Map.empty, clock_reads = 0,
               remote_calls = 0, slept = [], progress = []\<rparr>"

definition env_at :: "datetime \<Rightarrow> env" where
  \<comment> \<open>as \<open>env0\<close>, with a clock that stands at \<open>t\<close>\<close>
  "env_at t = env0\<lparr>clock := (\<lambda>k. t)\<rparr>"

definition session_with :: "quota \<Rightarrow> session" where
  "session_with q = session0\<lparr>quota_usage := q\<rparr>"

definition env_reply :: "reply \<Rightarrow> env" where
  \<comment> \<open>as \<open>env0\<close>, with every remote call ending in \<open>r\<close>\<close>
  "env_reply r = env0\<lparr>execute := (\<lambda>k request. r)\<rparr>"

definition forbidden :: reply where
  "forbidden = HttpError (Some (JObj [(''error'', JObj [(''message'', JStr ''Forbidden'')])]))"

definition env_slow :: env where
  \<comment> \<open>two days pass between clock readings; the first remote call succeeds, the later
      ones are refused by the provider\<close>
  "env_slow = \<lparr>md5_hexdigest = (\<lambda>x. x), clock = (\<lambda>k. int k * 172800000000),
               execute = (\<lambda>k request. if k = 0 then Response (JObj []) else forbidden)\<rparr>"

definition session_cached :: "datetime \<Rightarrow> session" where
  \<comment> \<open>a session whose cache holds a response for site \<^verbatim>\<open>site\<close> and URL \<^verbatim>\<open>u\<close>,
      stored at \<open>t\<close>\<close>
  "session_cached t =
     session0\<lparr>cache := [''site:u'' \<mapsto> \<lparr>data = JStr ''cached'', timestamp = t\<rparr>]\<rparr>"

definition outcome_with :: "json \<Rightarrow> (string \<times> json) list" where
  \<comment> \<open>the success outcome \<^verbatim>\<open>batch_inspect\<close> appends for this response\<close>
  "outcome_with response =
     [(''url'', JStr ''https://a.com/1''), (''status'', JStr ''success''),
      (''data'', response), (''timestamp'', JStr ''2024-01-01T00:00:00'')]"

definition full_response :: json where
  "full_response =
     JObj [(''inspectionResult'', JObj
       [(''indexStatusResult'', JObj [(''coverageState'', JStr ''Submitted and indexed'')]),
        (''richResultsResult'', JObj [(''detectedItems'',
            JArr [JObj [(''richResultType'', JStr ''FAQ'')],
                  JObj [(''richResultType'', JStr ''Recipe'')]])])])]"

definition env_of :: "(nat \<Rightarrow> datetime) \<Rightarrow> (nat \<Rightarrow> reply) \<Rightarrow> env" where
  \<comment> \<open>the clock reads \<open>c k\<close> at its \<open>k\<close>-th reading, the \<open>k\<close>-th remote call ends in \<open>r k\<close>\<close>
  "env_of c r = \<lparr>md5_hexdigest = (\<lambda>x. x), clock = c, execute = (\<lambda>k request. r k)\<rparr>"

section \<open>Shapes of a response\<close>

text \<open>
  The shape of the responses the provider documents, as far as \<^verbatim>\<open>parse_inspection_result\<close>
  reads them: every section that is present is a dictionary, the detected items are a
  list of dictionaries, and a rich-result type is a string.
\<close>

definition absent_or :: "(json \<Rightarrow> bool) \<Rightarrow> (string \<times> json) list \<Rightarrow> string \<Rightarrow> bool" where
  "absent_or P d key = (case map_of d key of None \<Rightarrow> True | Some v \<Rightarrow> P v)"

fun is_dict :: "json \<Rightarrow> bool" where
  "is_dict (JObj d) = True"
| "is_dict _ = False"

fun is_str :: "json \<Rightarrow> bool" where
  "is_str (JStr s) = True"
| "is_str _ = False"

fun item_ok :: "json \<Rightarrow> bool" where
  "item_ok (JObj d) = absent_or is_str d ''richResultType''"
| "item_ok _ = False"

fun items_ok :: "json \<Rightarrow> bool" where
  "items_ok (JArr xs) = list_all item_ok xs"
| "items_ok _ = False"

fun rich_ok :: "json \<Rightarrow> bool" where
  "rich_ok (JObj d) = absent_or items_ok d ''detectedItems''"
| "rich_ok _ = False"

fun inspection_ok :: "json \<Rightarrow> bool" where
  "inspection_ok (JObj d) =
     (absent_or is_dict d ''indexStatusResult'' \<and> absent_or is_dict d ''mobileUsabilityResult''
      \<and> absent_or rich_ok d ''richResultsResult'')"
| "inspection_ok _ = False"

fun data_ok :: "json \<Rightarrow> bool" where
  "data_ok (JObj d) = absent_or inspection_ok d ''inspectionResult''"
| "data_ok _ = False"

definition well_shaped :: "(string \<times> json) list \<Rightarrow> bool" where
  "well_shaped result = absent_or data_ok result ''data''"

fun lacks_inspection :: "json \<Rightarrow> bool" where
  "lacks_inspection (JObj d) = (map_of d ''inspectionResult'' = None)"
| "lacks_inspection _ = False"

definition no_sections :: "(string \<times> json) list \<Rightarrow> bool" where
  \<comment> \<open>the outcome has no response, or a response without \<^verbatim>\<open>inspectionResult\<close>\<close>
  "no_sections result = absent_or lacks_inspection result ''data''"

definition empty_record :: "json \<Rightarrow> flat_record" where
  \<comment> \<open>the record whose fields are all the empty string, but for \<^verbatim>\<open>inspection_url\<close>\<close>
  "empty_record u =
     \<lparr>inspection_url = u, inspection_result_link = JStr '''', verdict = JStr '''',
      coverage_state = JStr '''', indexing_state = JStr '''', last_crawl_time = JStr '''',
      page_fetch_state = JStr '''', robots_txt_state = JStr '''', user_canonical = JStr '''',
      google_canonical = JStr '''', mobile_verdict = JStr '''',
      rich_results_verdict = JStr '''', rich_results_detected = JStr '''',
      crawled_as = JStr ''''\<rparr>"

section \<open>The quota tracker\<close>

lemmas run_defs =
  batch_inspect_def inspect_one_def record_outcome_def inspect_url_def inspect_remote_def
  check_quota_def check_quota_at_def reset_daily_def reset_minute_def update_quota_def
  throttle_def sleep_def datetime_now_def get_cache_key_def request_body_def api_error_def
  dict_get_def env0_def env_at_def env_reply_def env_slow_def env_of_def forbidden_def
  session0_def session_cached_def session_with_def initial_quota_def date_def daily_limit_def
  minute_limit_def one_minute_def one_day_def Let_def

lemma check_quota_at_verdict:
  "fst (check_quota_at now q) =
     (daily (snd (check_quota_at now q)) < daily_limit \<and>
      per_minute (snd (check_quota_at now q)) < minute_limit)"
  by (simp add: check_quota_at_def reset_minute_def Let_def)

lemma check_quota_at_idle:
  "date now \<le> date (last_reset q) \<Longrightarrow>
   (case minute_reset q of None \<Rightarrow> True | Some m \<Rightarrow> now - m \<le> one_minute) \<Longrightarrow>
   snd (check_quota_at now q) = q"
  by (simp add: check_quota_at_def reset_daily_def reset_minute_def Let_def one_minute_def
      split: option.splits)

lemma check_quota_at_within:
  "within_limits q \<Longrightarrow> within_limits (snd (check_quota_at now q))"
  by (simp add: check_quota_at_def reset_daily_def reset_minute_def Let_def within_limits_def
      daily_limit_def minute_limit_def)

lemma check_quota_at_update_within:
  "fst (check_quota_at now q) \<Longrightarrow> within_limits (update_quota (snd (check_quota_at now q)))"
  using check_quota_at_verdict [of now q]
  by (simp add: within_limits_def update_quota_def)

lemma check_quota_sel:
  "quota_usage (snd (check_quota e s)) =
     snd (check_quota_at (clock e (clock_reads s)) (quota_usage s))"
  "fst (check_quota e s) = fst (check_quota_at (clock e (clock_reads s)) (quota_usage s))"
  "cache (snd (check_quota e s)) = cache s"
  "clock_reads (snd (check_quota e s)) = clock_reads s + 1"
  "remote_calls (snd (check_quota e s)) = remote_calls s"
  "slept (snd (check_quota e s)) = slept s"
  "progress (snd (check_quota e s)) = progress s"
  by (simp_all add: check_quota_def datetime_now_def split: prod.splits)

lemmas concrete_quota_defs =
  check_quota_at_def reset_daily_def reset_minute_def env_at_def env0_def session_with_def
  session0_def initial_quota_def date_def daily_limit_def minute_limit_def one_minute_def Let_def

lemma check_quota_at_exact:
  "check_quota_at now q =
     (let rolled = date now > date (last_reset q);
          d = (if rolled then 0 else daily q);
          expired = (d < daily_limit \<and>
                     (case minute_reset q of None \<Rightarrow> False | Some m \<Rightarrow> now - m > one_minute));
          p = (if expired then 0 else per_minute q)
      in (d < daily_limit \<and> p < minute_limit,
          \<lparr>daily = d, per_minute = p,
           last_reset = (if rolled then now else last_reset q),
           minute_reset = (if expired then Some now else minute_reset q)\<rparr>))"
  by (cases q)
     (simp add: check_quota_at_def reset_daily_def reset_minute_def Let_def one_minute_def
        split: option.splits)

text \<open>
  Claim C4, as the code has it. \<^verbatim>\<open>check_quota\<close> first applies the rollovers itself:
  the daily count becomes 0 and the reset date the current time when the date has
  advanced past the stored reset date; then, with the daily count below the daily limit
  and a minute-window start stored more than 60 seconds ago, the per-minute count becomes
  0 and the window start the current time. It returns false exactly when, after these
  rollovers, the daily count is at or above the daily limit or the per-minute count is at
  or above the minute limit. The rollover resets are its only side effect: every quota
  field a rollover does not reset keeps its value and the cache is untouched, so that
  when no rollover is due the quota state is unchanged and the verdict is about the
  counts as they were before the call.
\<close>

theorem check_quota_verdict_and_frame:
  "check_quota e s =
     (let now = clock e (clock_reads s);
          q = quota_usage s;
          rolled = date now > date (last_reset q);
          d = (if rolled then 0 else daily q);
          expired = (d < daily_limit \<and>
                     (case minute_reset q of None \<Rightarrow> False | Some m \<Rightarrow> now - m > one_minute));
          p = (if expired then 0 else per_minute q)
      in (d < daily_limit \<and> p < minute_limit,
          s\<lparr>clock_reads := clock_reads s + 1,
            quota_usage :=
              \<lparr>daily = d, per_minute = p,
               last_reset = (if rolled then now else last_reset q),
               minute_reset = (if expired then Some now else minute_reset q)\<rparr>\<rparr>))
   \<and> cache (snd (check_quota e s)) = cache s
   \<and> (date (clock e (clock_reads s)) \<le> date (last_reset (quota_usage s)) \<and>
      (case minute_reset (quota_usage s) of None \<Rightarrow> True
       | Some m \<Rightarrow> clock e (clock_reads s) - m \<le> one_minute)
      \<longrightarrow> quota_usage (snd (check_quota e s)) = quota_usage s
        \<and> fst (check_quota e s) =
            (daily (quota_usage s) < daily_limit \<and> per_minute (quota_usage s) < minute_limit))"
proof -
  have a: "check_quota e s =
     (fst (check_quota_at (clock e (clock_reads s)) (quota_usage s)),
      s\<lparr>clock_reads := clock_reads s + 1,
        quota_usage := snd (check_quota_at (clock e (clock_reads s)) (quota_usage s))\<rparr>)"
    by (simp add: check_quota_def datetime_now_def split: prod.splits)
  have b: "date (clock e (clock_reads s)) \<le> date (last_reset (quota_usage s)) \<and>
      (case minute_reset (quota_usage s) of None \<Rightarrow> True
       | Some m \<Rightarrow> clock e (clock_reads s) - m \<le> one_minute)
      \<longrightarrow> quota_usage (snd (check_quota e s)) = quota_usage s
        \<and> fst (check_quota e s) =
            (daily (quota_usage s) < daily_limit \<and> per_minute (quota_usage s) < minute_limit)"
    using check_quota_at_verdict [of "clock e (clock_reads s)" "quota_usage s"]
        check_quota_at_idle [of "clock e (clock_reads s)" "quota_usage s"]
    by (auto simp: check_quota_sel)
  have c: "cache (snd (check_quota e s)) = cache s" by (simp add: check_quota_sel)
  have d: "check_quota e s =
     (let now = clock e (clock_reads s);
          q = quota_usage s;
          rolled = date now > date (last_reset q);
          d = (if rolled then 0 else daily q);
          expired = (d < daily_limit \<and>
                     (case minute_reset q of None \<Rightarrow> False | Some m \<Rightarrow> now - m > one_minute));
          p = (if expired then 0 else per_minute q)
      in (d < daily_limit \<and> p < minute_limit,
          s\<lparr>clock_reads := clock_reads s + 1,
            quota_usage :=
              \<lparr>daily = d, per_minute = p,
               last_reset = (if rolled then now else last_reset q),
               minute_reset = (if expired then Some now else minute_reset q)\<rparr>\<rparr>))"
    by (subst a, subst check_quota_at_exact, subst check_quota_at_exact) (simp add: Let_def)
  from d c b show ?thesis by blast
qed

theorem check_quota_verdict_and_frame_witness:
  "date (clock env0 (clock_reads session0)) \<le> date (last_reset (quota_usage session0))
   \<and> minute_reset (quota_usage session0) = None
   \<and> check_quota env0 session0 = (True, session0\<lparr>clock_reads := 1\<rparr>)
   \<and> check_quota (env_at 86400000000)
        (session_with \<lparr>daily = 2000, per_minute = 5, last_reset = 0, minute_reset = Some 0\<rparr>)
      = (True, (session_with \<lparr>daily = 0, per_minute = 0, last_reset = 86400000000,
                 minute_reset = Some 86400000000\<rparr>)\<lparr>clock_reads := 1\<rparr>)
   \<and> check_quota (env_at 30000000)
        (session_with \<lparr>daily = 7, per_minute = 600, last_reset = 0, minute_reset = Some 0\<rparr>)
      = (False, (session_with \<lparr>daily = 7, per_minute = 600, last_reset = 0,
                 minute_reset = Some 0\<rparr>)\<lparr>clock_reads := 1\<rparr>)"
  using check_quota_verdict_and_frame [of env0 session0]
    check_quota_verdict_and_frame [of "env_at 86400000000"
      "session_with \<lparr>daily = 2000, per_minute = 5, last_reset = 0, minute_reset = Some 0\<rparr>"]
    check_quota_verdict_and_frame [of "env_at 30000000"
      "session_with \<lparr>daily = 7, per_minute = 600, last_reset = 0, minute_reset = Some 0\<rparr>"]
  by (simp add: env_at_def env0_def session_with_def session0_def initial_quota_def date_def
      daily_limit_def minute_limit_def one_minute_def Let_def)

text \<open>
  Claim C4 as stated fails: with the daily count at the limit and a reset date of
  yesterday, \<^verbatim>\<open>check_quota\<close> returns true and has changed the quota state.
\<close>

theorem check_quota_resets_counterexample:
  "daily (quota_usage (session_with
      \<lparr>daily = 2000, per_minute = 0, last_reset = 0, minute_reset = None\<rparr>)) \<ge> daily_limit
   \<and> fst (check_quota (env_at 86400000000)
        (session_with \<lparr>daily = 2000, per_minute = 0, last_reset = 0, minute_reset = None\<rparr>))
   \<and> quota_usage (snd (check_quota (env_at 86400000000)
        (session_with \<lparr>daily = 2000, per_minute = 0, last_reset = 0, minute_reset = None\<rparr>)))
      = \<lparr>daily = 0, per_minute = 0, last_reset = 86400000000, minute_reset = None\<rparr>"
  by (simp add: check_quota_sel concrete_quota_defs)

text \<open>
  Claim C7, as the code has it. On a \<^verbatim>\<open>check_quota\<close> call, if the date of the clock is
  later than the stored reset date, the daily count becomes 0 and the reset date becomes
  the current time; otherwise both are left as they are, so that a date change resets
  the count once whatever the number of calls. Then, provided the daily count is below
  the daily limit and a minute-window start is stored: if more than 60 seconds have
  passed since that start, the per-minute count becomes 0 and the window start becomes
  the current time; if at most 60 seconds have passed, both are left as they are.
\<close>

theorem check_quota_rollover:
  "(date (clock e (clock_reads s)) > date (last_reset (quota_usage s)) \<longrightarrow>
      daily (quota_usage (snd (check_quota e s))) = 0 \<and>
      last_reset (quota_usage (snd (check_quota e s))) = clock e (clock_reads s))
   \<and> (date (clock e (clock_reads s)) \<le> date (last_reset (quota_usage s)) \<longrightarrow>
      daily (quota_usage (snd (check_quota e s))) = daily (quota_usage s) \<and>
      last_reset (quota_usage (snd (check_quota e s))) = last_reset (quota_usage s))
   \<and> (\<forall>m. minute_reset (quota_usage s) = Some m \<and>
          daily (quota_usage (snd (check_quota e s))) < daily_limit \<longrightarrow>
        (clock e (clock_reads s) - m > one_minute \<longrightarrow>
           per_minute (quota_usage (snd (check_quota e s))) = 0 \<and>
           minute_reset (quota_usage (snd (check_quota e s))) = Some (clock e (clock_reads s))) \<and>
        (clock e (clock_reads s) - m \<le> one_minute \<longrightarrow>
           per_minute (quota_usage (snd (check_quota e s))) = per_minute (quota_usage s) \<and>
           minute_reset (quota_usage (snd (check_quota e s))) = Some m))"
  by (auto simp: check_quota_sel check_quota_at_def reset_daily_def reset_minute_def Let_def)

theorem check_quota_rollover_witness:
  "date (clock (env_at 86400000000) 0) > date 0
   \<and> clock (env_at 86400000000) 0 - 0 > one_minute
   \<and> quota_usage (snd (check_quota (env_at 86400000000)
        (session_with \<lparr>daily = 7, per_minute = 5, last_reset = 0, minute_reset = Some 0\<rparr>)))
      = \<lparr>daily = 0, per_minute = 0, last_reset = 86400000000,
         minute_reset = Some 86400000000\<rparr>
   \<and> date (clock (env_at 30000000) 0) \<le> date 0
   \<and> clock (env_at 30000000) 0 - 0 \<le> one_minute
   \<and> quota_usage (snd (check_quota (env_at 30000000)
        (session_with \<lparr>daily = 7, per_minute = 5, last_reset = 0, minute_reset = Some 0\<rparr>)))
      = \<lparr>daily = 7, per_minute = 5, last_reset = 0, minute_reset = Some 0\<rparr>"
  using check_quota_rollover [where e = "env_at 86400000000" and
      s = "session_with \<lparr>daily = 7, per_minute = 5, last_reset = 0, minute_reset = Some 0\<rparr>"]
    check_quota_rollover [where e = "env_at 30000000" and
      s = "session_with \<lparr>daily = 7, per_minute = 5, last_reset = 0, minute_reset = Some 0\<rparr>"]
  by (simp add: check_quota_sel concrete_quota_defs)

text \<open>
  Claim C7 as stated fails: the minute rollover is not independent of the daily gate.
  With the daily count at the limit, \<^verbatim>\<open>check_quota\<close> returns before the minute window
  is looked at, and a window that started 120 seconds ago keeps its count.
\<close>

theorem check_quota_rollover_counterexample:
  "clock (env_at 120000000) 0 - 0 > one_minute
   \<and> quota_usage (snd (check_quota (env_at 120000000)
        (session_with \<lparr>daily = 2000, per_minute = 5, last_reset = 0, minute_reset = Some 0\<rparr>)))
      = \<lparr>daily = 2000, per_minute = 5, last_reset = 0, minute_reset = Some 0\<rparr>"
  by (simp add: check_quota_sel concrete_quota_defs)

section \<open>The normalizer\<close>

lemma py_contains_dict: "py_contains key (JObj d) = Inr (map_of d key \<noteq> None)"
  by (simp add: map_of_eq_None_iff)

lemma and_then_Inr: "and_then (Inr v) f = f v"
  by (simp add: and_then_def)

lemma index_status_absent:
  "map_of d ''indexStatusResult'' = None \<Longrightarrow> index_status (JObj d) parsed = Inr parsed"
  by (simp add: index_status_def py_contains_dict and_then_Inr del: py_contains.simps)

lemma index_status_dict:
  "map_of d ''indexStatusResult'' = Some (JObj i) \<Longrightarrow>
   \<exists>r. index_status (JObj d) parsed = Inr r"
  by (simp add: index_status_def py_contains_dict and_then_Inr del: py_contains.simps)

lemma index_status_ok:
  "absent_or is_dict d ''indexStatusResult'' \<Longrightarrow> \<exists>r. index_status (JObj d) parsed = Inr r"
proof (cases "map_of d ''indexStatusResult''")
  case None
  then show ?thesis by (simp add: index_status_absent)
next
  case (Some v)
  assume "absent_or is_dict d ''indexStatusResult''"
  with Some obtain i where "v = JObj i" by (cases v) (simp_all add: absent_or_def)
  with Some show ?thesis by (simp add: index_status_dict)
qed

lemma mobile_usability_absent:
  "map_of d ''mobileUsabilityResult'' = None \<Longrightarrow> mobile_usability (JObj d) parsed = Inr parsed"
  by (simp add: mobile_usability_def py_contains_dict and_then_Inr del: py_contains.simps)

lemma mobile_usability_dict:
  "map_of d ''mobileUsabilityResult'' = Some (JObj i) \<Longrightarrow>
   \<exists>r. mobile_usability (JObj d) parsed = Inr r"
  by (simp add: mobile_usability_def py_contains_dict and_then_Inr del: py_contains.simps)

lemma mobile_usability_ok:
  "absent_or is_dict d ''mobileUsabilityResult'' \<Longrightarrow> \<exists>r. mobile_usability (JObj d) parsed = Inr r"
proof (cases "map_of d ''mobileUsabilityResult''")
  case None
  then show ?thesis by (simp add: mobile_usability_absent)
next
  case (Some v)
  assume "absent_or is_dict d ''mobileUsabilityResult''"
  with Some obtain i where "v = JObj i" by (cases v) (simp_all add: absent_or_def)
  with Some show ?thesis by (simp add: mobile_usability_dict)
qed

lemma types_ok:
  "list_all item_ok xs \<Longrightarrow>
   \<exists>ss. map_result (\<lambda>item. py_get item ''richResultType'' (JStr '''')) xs = Inr ss
        \<and> list_all is_str ss"
proof (induction xs)
  case Nil
  then show ?case by simp
next
  case (Cons x xs)
  then obtain ss where ss: "map_result (\<lambda>item. py_get item ''richResultType'' (JStr '''')) xs = Inr ss"
    "list_all is_str ss" by auto
  from Cons.prems obtain d where x: "x = JObj d" "absent_or is_str d ''richResultType''"
    by (cases x) simp_all
  then have "is_str (dict_get d ''richResultType'' (JStr ''''))"
    by (simp add: absent_or_def dict_get_def split: option.splits)
  with ss x show ?case by (simp add: and_then_Inr)
qed

lemma strs_ok: "list_all is_str items \<Longrightarrow> \<exists>ss. map_result as_str items = Inr ss"
proof (induction items)
  case Nil
  then show ?case by simp
next
  case (Cons x xs)
  then obtain ss where ss: "map_result as_str xs = Inr ss" by auto
  from Cons.prems obtain s where "x = JStr s" by (cases x) simp_all
  with ss show ?case by (simp add: and_then_Inr)
qed

lemma join_ok: "list_all is_str items \<Longrightarrow> \<exists>j. py_join sep items = Inr j"
  using strs_ok [of items] by (auto simp: py_join_def and_then_Inr)

lemma rich_results_absent:
  "map_of d ''richResultsResult'' = None \<Longrightarrow> rich_results (JObj d) parsed = Inr parsed"
  by (simp add: rich_results_def py_contains_dict and_then_Inr del: py_contains.simps)

lemma rich_results_ok:
  assumes "absent_or rich_ok d ''richResultsResult''"
  shows "\<exists>r. rich_results (JObj d) parsed = Inr r"
proof (cases "map_of d ''richResultsResult''")
  case None
  then show ?thesis by (simp add: rich_results_absent)
next
  case (Some rich)
  with assms obtain rd where rich: "rich = JObj rd" "absent_or items_ok rd ''detectedItems''"
    by (cases rich) (simp_all add: absent_or_def)
  have "\<exists>xs. dict_get rd ''detectedItems'' (JArr []) = JArr xs \<and> list_all item_ok xs"
  proof (cases "map_of rd ''detectedItems''")
    case None
    then show ?thesis by (simp add: dict_get_def)
  next
    case (Some v)
    with rich(2) have "items_ok v" by (simp add: absent_or_def)
    then obtain xs where "v = JArr xs" "list_all item_ok xs" by (cases v) simp_all
    with Some show ?thesis by (simp add: dict_get_def)
  qed
  then obtain xs where xs: "dict_get rd ''detectedItems'' (JArr []) = JArr xs"
    "list_all item_ok xs" by blast
  from types_ok [OF xs(2)] obtain ss where
    ss: "map_result (\<lambda>item. py_get item ''richResultType'' (JStr '''')) xs = Inr ss"
        "list_all is_str ss" by blast
  from join_ok [OF ss(2)] obtain j where j: "py_join '', '' ss = Inr j" by blast
  from Some rich(1) xs(1) ss(1) j show ?thesis
    by (simp add: rich_results_def py_contains_dict and_then_Inr del: py_contains.simps)
qed

lemma parse_without_data:
  "map_of result ''data'' = None \<Longrightarrow>
   parse_inspection_result result = Inr (empty_record (dict_get result ''url'' (JStr '''')))"
  by (simp add: parse_inspection_result_def dict_get_def and_then_Inr empty_record_def)

lemma parse_without_inspection:
  "map_of result ''data'' = Some (JObj d) \<Longrightarrow> map_of d ''inspectionResult'' = None \<Longrightarrow>
   parse_inspection_result result = Inr (empty_record (dict_get result ''url'' (JStr '''')))"
  by (simp add: parse_inspection_result_def dict_get_def and_then_Inr empty_record_def
      py_contains_dict del: py_contains.simps)

lemma parse_no_sections:
  assumes "no_sections result"
  shows "parse_inspection_result result = Inr (empty_record (dict_get result ''url'' (JStr '''')))"
proof (cases "map_of result ''data''")
  case None
  then show ?thesis by (rule parse_without_data)
next
  case (Some v)
  with assms have "lacks_inspection v" by (simp add: no_sections_def absent_or_def)
  then obtain d where "v = JObj d" "map_of d ''inspectionResult'' = None"
    by (cases v) simp_all
  with Some show ?thesis by (simp add: parse_without_inspection)
qed

lemma parse_with_inspection:
  assumes "map_of result ''data'' = Some (JObj d)"
    and "map_of d ''inspectionResult'' = Some (JObj i)"
    and "absent_or is_dict i ''indexStatusResult''"
    and "absent_or is_dict i ''mobileUsabilityResult''"
    and "absent_or rich_ok i ''richResultsResult''"
  shows "\<exists>r. parse_inspection_result result = Inr r"
proof -
  let ?p = "(empty_record (dict_get result ''url'' (JStr '''')))
              \<lparr>inspection_result_link := dict_get i ''inspectionResultLink'' (JStr '''')\<rparr>"
  obtain p1 where p1: "index_status (JObj i) ?p = Inr p1"
    using index_status_ok [OF assms(3)] by blast
  obtain p2 where p2: "mobile_usability (JObj i) p1 = Inr p2"
    using mobile_usability_ok [OF assms(4)] by blast
  obtain p3 where p3: "rich_results (JObj i) p2 = Inr p3"
    using rich_results_ok [OF assms(5)] by blast
  have "parse_inspection_result result = Inr p3"
    using assms(1,2) p1 p2 p3
    by (simp add: parse_inspection_result_def dict_get_def and_then_Inr empty_record_def
        py_contains_dict del: py_contains.simps)
  then show ?thesis by blast
qed

lemma parse_well_shaped:
  assumes "well_shaped result"
  shows "\<exists>r. parse_inspection_result result = Inr r"
proof (cases "map_of result ''data''")
  case None
  then show ?thesis by (simp add: parse_without_data)
next
  case (Some v)
  with assms have "data_ok v" by (simp add: well_shaped_def absent_or_def)
  then obtain d where d: "v = JObj d" "absent_or inspection_ok d ''inspectionResult''"
    by (cases v) simp_all
  show ?thesis
  proof (cases "map_of d ''inspectionResult''")
    case None
    with Some d(1) show ?thesis by (simp add: parse_without_inspection)
  next
    case insp: (Some w)
    with d(2) have "inspection_ok w" by (simp add: absent_or_def)
    then obtain i where i: "w = JObj i" "absent_or is_dict i ''indexStatusResult''"
      "absent_or is_dict i ''mobileUsabilityResult''" "absent_or rich_ok i ''richResultsResult''"
      by (cases w) simp_all
    from Some d(1) insp i(1) have "map_of result ''data'' = Some (JObj d)"
      "map_of d ''inspectionResult'' = Some (JObj i)" by simp_all
    then show ?thesis using i(2,3,4) by (rule parse_with_inspection)
  qed
qed

text \<open>
  Claim C8, as the code has it. \<^verbatim>\<open>parse_inspection_result\<close> returns a record for every
  outcome whose response has the documented shape (each section that is present is a
  dictionary, the detected items are a list of dictionaries with string types). For an
  outcome without a response, or whose response has no \<^verbatim>\<open>inspectionResult\<close>, every field
  of the record is the empty string except \<^verbatim>\<open>inspection_url\<close>, which is the outcome's
  \<^verbatim>\<open>url\<close>.
\<close>

theorem parse_inspection_result_total:
  "(well_shaped result \<longrightarrow> (\<exists>r. parse_inspection_result result = Inr r))
   \<and> (no_sections result \<longrightarrow>
        parse_inspection_result result =
          Inr (empty_record (dict_get result ''url'' (JStr ''''))))"
  using parse_well_shaped [of result] parse_no_sections [of result] by blast

theorem parse_inspection_result_total_witness:
  "well_shaped (outcome_with full_response)
   \<and> map_sum id coverage_state (parse_inspection_result (outcome_with full_response))
       = Inr (JStr ''Submitted and indexed'')
   \<and> no_sections (outcome_with (JObj []))
   \<and> parse_inspection_result (outcome_with (JObj []))
       = Inr (empty_record (JStr ''https://a.com/1''))"
proof -
  have a: "well_shaped (outcome_with full_response)"
    by (simp add: well_shaped_def absent_or_def outcome_with_def full_response_def)
  have b: "no_sections (outcome_with (JObj []))"
    by (simp add: no_sections_def absent_or_def outcome_with_def)
  have c: "map_sum id coverage_state (parse_inspection_result (outcome_with full_response))
       = Inr (JStr ''Submitted and indexed'')"
    by (simp add: parse_inspection_result_def index_status_def mobile_usability_def
        rich_results_def py_join_def and_then_def dict_get_def outcome_with_def
        full_response_def)
  from a b c parse_inspection_result_total [of "outcome_with (JObj [])"]
    parse_inspection_result_total [of "outcome_with full_response"]
  show ?thesis by (simp add: dict_get_def outcome_with_def)
qed

text \<open>
  Claim C8 as stated fails twice: the \<^verbatim>\<open>inspection_url\<close> field of an outcome with an
  empty response is the outcome's URL, not the empty string; and an outcome whose
  \<^verbatim>\<open>inspectionResult\<close> is null makes \<^verbatim>\<open>.get\<close> raise AttributeError.
\<close>

theorem parse_inspection_result_counterexample:
  "map_sum id inspection_url (parse_inspection_result (outcome_with (JObj [])))
     = Inr (JStr ''https://a.com/1'')
   \<and> parse_inspection_result (outcome_with (JObj [(''inspectionResult'', JNull)]))
     = Inl AttributeError"
  by (simp add: parse_inspection_result_def and_then_def dict_get_def outcome_with_def)

section \<open>The inspection client and the batch runner\<close>

lemma inspect_remote_failure:
  assumes "inspect_remote e key site u s = (Inl ex, s')"
  shows "cache s' = cache s"
    and "quota_usage s' = snd (check_quota_at (clock e (clock_reads s)) (quota_usage s))"
    and "clock_reads s' = clock_reads s + 1"
  using assms
  by (auto simp: inspect_remote_def check_quota_def datetime_now_def Let_def
      split: prod.splits reply.splits if_splits)

lemma inspect_remote_within:
  "within_limits (quota_usage s) \<Longrightarrow>
   within_limits (quota_usage (snd (inspect_remote e key site u s)))"
  using check_quota_at_within [of "quota_usage s" "clock e (clock_reads s)"]
        check_quota_at_update_within [of "clock e (clock_reads s)" "quota_usage s"]
  by (auto simp: inspect_remote_def check_quota_def datetime_now_def Let_def
      split: prod.splits reply.splits if_splits)

lemma inspect_remote_slept:
  "slept (snd (inspect_remote e key site u s)) = slept s"
  "progress (snd (inspect_remote e key site u s)) = progress s"
  by (auto simp: inspect_remote_def check_quota_def datetime_now_def Let_def
      split: prod.splits reply.splits if_splits)

lemma inspect_url_within:
  "within_limits (quota_usage s) \<Longrightarrow>
   within_limits (quota_usage (snd (inspect_url e site u uc s)))"
  using inspect_remote_within [of s e]
        inspect_remote_within [of "s\<lparr>clock_reads := clock_reads s + 1\<rparr>" e]
  by (auto simp: inspect_url_def datetime_now_def Let_def split: option.splits prod.splits)

lemma inspect_url_slept:
  "slept (snd (inspect_url e site u uc s)) = slept s"
  "progress (snd (inspect_url e site u uc s)) = progress s"
  by (auto simp: inspect_url_def datetime_now_def Let_def inspect_remote_slept
      split: option.splits prod.splits)

lemma inspect_url_failure:
  assumes "inspect_url e site u uc s = (Inl ex, s')"
  shows "cache s' = cache s"
    and "quota_usage s' = snd (check_quota_at (clock e (clock_reads s' - 1)) (quota_usage s))"
  using assms inspect_remote_failure [of e _ site u s ex s']
    inspect_remote_failure [of e _ site u "s\<lparr>clock_reads := clock_reads s + 1\<rparr>" ex s']
  by (auto simp: inspect_url_def datetime_now_def Let_def
      split: option.splits prod.splits if_splits)

lemma throttle_within:
  "within_limits (quota_usage s) \<Longrightarrow> within_limits (quota_usage (throttle e s))"
  by (simp add: throttle_def sleep_def datetime_now_def Let_def within_limits_def
      minute_limit_def)

lemma record_outcome_sel:
  "quota_usage (snd (record_outcome e u rs)) = quota_usage (snd rs)"
  "cache (snd (record_outcome e u rs)) = cache (snd rs)"
  "remote_calls (snd (record_outcome e u rs)) = remote_calls (snd rs)"
  by (auto simp: record_outcome_def sleep_def datetime_now_def split: prod.splits sum.splits)

lemma inspect_one_within:
  "within_limits (quota_usage s) \<Longrightarrow>
   within_limits (quota_usage (snd (inspect_one e site u s)))"
  by (simp add: inspect_one_def record_outcome_sel inspect_url_within throttle_within)

lemma batch_loop_within:
  "within_limits (quota_usage s) \<Longrightarrow>
   within_limits (quota_usage (snd (batch_loop e site n i urls rs s)))"
proof (induction urls arbitrary: i rs s)
  case Nil
  then show ?case by simp
next
  case (Cons u urls)
  have "within_limits (quota_usage (snd (inspect_one e site u s)))"
    using Cons.prems by (rule inspect_one_within)
  then show ?case
    by (auto simp: Let_def split: prod.splits intro!: Cons.IH)
qed

lemma record_outcome_fst:
  "fst (record_outcome e u (Inr r, s1)) = Success u r (clock e (clock_reads s1))"
  "fst (record_outcome e u (Inl ex, s1)) = Failure u ex (clock e (clock_reads s1))"
  by (simp_all add: record_outcome_def datetime_now_def)

lemma inspect_one_url: "url (fst (inspect_one e site u s)) = u"
  by (cases "inspect_url e site u True (throttle e s)"; cases "fst (inspect_url e site u True (throttle e s))")
     (auto simp: inspect_one_def record_outcome_fst)

lemma batch_loop_acc:
  "fst (batch_loop e site n i urls rs s) = rs @ fst (batch_loop e site n i urls [] s)"
proof (induction urls arbitrary: i rs s)
  case Nil
  then show ?case by simp
next
  case (Cons u urls)
  obtain x s1 where x: "inspect_one e site u s = (x, s1)" by (cases "inspect_one e site u s")
  show ?case
    using Cons.IH [of "i + 1" "rs @ [x]"] Cons.IH [of "i + 1" "[x]"]
    by (simp add: x)
qed

lemma batch_loop_snd:
  "snd (batch_loop e site n i urls rs s) = snd (batch_loop e site n i urls [] s)"
proof (induction urls arbitrary: i rs s)
  case Nil
  then show ?case by simp
next
  case (Cons u urls)
  obtain x s1 where x: "inspect_one e site u s = (x, s1)" by (cases "inspect_one e site u s")
  show ?case
    using Cons.IH [of "i + 1" "rs @ [x]"] Cons.IH [of "i + 1" "[x]"]
    by (simp add: x)
qed

lemma batch_loop_Cons:
  "fst (batch_loop e site n i (u # urls) [] s) =
     fst (inspect_one e site u s)
     # fst (batch_loop e site n (i + 1) urls []
         ((snd (inspect_one e site u s))
            \<lparr>progress := (i + 1, n) # progress (snd (inspect_one e site u s))\<rparr>))"
proof -
  obtain x s1 where x: "inspect_one e site u s = (x, s1)" by (cases "inspect_one e site u s")
  show ?thesis
    using batch_loop_acc [of e site n "i + 1" urls "[x]"]
    by (simp add: x)
qed

lemma batch_loop_urls:
  "map url (fst (batch_loop e site n i urls [] s)) = urls"
proof (induction urls arbitrary: i s)
  case Nil
  then show ?case by simp
next
  case (Cons u urls)
  show ?case
    by (simp only: batch_loop_Cons list.map inspect_one_url Cons.IH)
qed

lemma status_cases: "status x = ''success'' \<or> status x = ''error''"
  by (cases x) simp_all

text \<open>
  Claim C1. For every list of URLs, \<^verbatim>\<open>batch_inspect\<close> returns one outcome per URL, in
  the order of the input, each with status \<^verbatim>\<open>success\<close> or \<^verbatim>\<open>error\<close>. The outcome of a
  URL is a success carrying the response when \<^verbatim>\<open>inspect_url\<close> returns one, and an error
  carrying the exception when \<^verbatim>\<open>inspect_url\<close> raises; in both cases the loop goes on with
  the remaining URLs.
\<close>

theorem batch_inspect_outcomes:
  "length (fst (batch_inspect e site urls s)) = length urls
   \<and> map url (fst (batch_inspect e site urls s)) = urls
   \<and> (\<forall>x \<in> set (fst (batch_inspect e site urls s)).
        status x = ''success'' \<or> status x = ''error'')
   \<and> (\<forall>r s1. inspect_url e site u True (throttle e s) = (Inr r, s1) \<longrightarrow>
        fst (inspect_one e site u s) = Success u r (clock e (clock_reads s1)))
   \<and> (\<forall>ex s1. inspect_url e site u True (throttle e s) = (Inl ex, s1) \<longrightarrow>
        fst (inspect_one e site u s) = Failure u ex (clock e (clock_reads s1)))
   \<and> fst (batch_loop e site n i (u # urls) [] s) =
        fst (inspect_one e site u s)
        # fst (batch_loop e site n (i + 1) urls []
            ((snd (inspect_one e site u s))
               \<lparr>progress := (i + 1, n) # progress (snd (inspect_one e site u s))\<rparr>))"
proof -
  have m: "map url (fst (batch_inspect e site urls s)) = urls"
    by (simp add: batch_inspect_def batch_loop_urls)
  then have "length (map url (fst (batch_inspect e site urls s))) = length urls"
    by simp
  then have l: "length (fst (batch_inspect e site urls s)) = length urls"
    by simp
  have st: "\<forall>x \<in> set (fst (batch_inspect e site urls s)).
      status x = ''success'' \<or> status x = ''error''"
    by (simp add: status_cases)
  have ok: "\<forall>r s1. inspect_url e site u True (throttle e s) = (Inr r, s1) \<longrightarrow>
      fst (inspect_one e site u s) = Success u r (clock e (clock_reads s1))"
    by (simp add: inspect_one_def record_outcome_fst)
  have ko: "\<forall>ex s1. inspect_url e site u True (throttle e s) = (Inl ex, s1) \<longrightarrow>
      fst (inspect_one e site u s) = Failure u ex (clock e (clock_reads s1))"
    by (simp add: inspect_one_def record_outcome_fst)
  from l m st ok ko batch_loop_Cons [of e site n i u urls s] show ?thesis
    by blast
qed

theorem batch_inspect_outcomes_witness:
  "fst (batch_inspect (env_of (\<lambda>k. int k * 1000000) (\<lambda>k. if k = 0 then Response full_response else forbidden))
      ''site'' [''u'', ''v'', ''u''] session0)
   = [Success ''u'' full_response 2000000, Failure ''v'' (ApiError (JStr ''Forbidden'')) 4000000,
      Success ''u'' full_response 6000000]
   \<and> fst (inspect_one (env_of (\<lambda>k. int k * 1000000) (\<lambda>k. forbidden)) ''site'' ''v'' session0)
     = Failure ''v'' (ApiError (JStr ''Forbidden'')) 1000000"
  using batch_inspect_outcomes [of "env_of (\<lambda>k. int k * 1000000) (\<lambda>k. if k = 0 then Response full_response else forbidden)"
      "''site''" "[''u'', ''v'', ''u'']" session0 "''u''" 3 0]
    batch_inspect_outcomes [of "env_of (\<lambda>k. int k * 1000000) (\<lambda>k. forbidden)"
      "''site''" "[]" session0 "''v''" 1 0]
  by (simp add: run_defs)

text \<open>
  Claim C2. From a quota state within the limits (the initial one is), the counters stay
  within the daily limit of 2000 and the minute limit of 600: after \<^verbatim>\<open>check_quota\<close>,
  after an \<^verbatim>\<open>update_quota\<close> that follows a \<^verbatim>\<open>check_quota\<close> that returned true, after
  any \<^verbatim>\<open>inspect_url\<close> call and after any \<^verbatim>\<open>batch_inspect\<close> run, hence at every point of
  any sequence of inspection calls.
\<close>

theorem quota_never_exceeded:
  assumes "within_limits (quota_usage s)"
  shows "within_limits (quota_usage (snd (check_quota e s)))
    \<and> (fst (check_quota e s) \<longrightarrow>
         within_limits (update_quota (quota_usage (snd (check_quota e s)))))
    \<and> within_limits (quota_usage (snd (inspect_url e site u use_cache s)))
    \<and> within_limits (quota_usage (snd (batch_inspect e site urls s)))"
  using assms
  by (simp add: check_quota_sel check_quota_at_within check_quota_at_update_within
      inspect_url_within batch_inspect_def batch_loop_within)

theorem quota_never_exceeded_witness:
  "within_limits (quota_usage session0)
   \<and> fst (check_quota env0 session0)
   \<and> within_limits (update_quota (quota_usage (snd (check_quota env0 session0))))
   \<and> within_limits (quota_usage (snd (inspect_url env0 ''site'' ''u'' True session0)))
   \<and> within_limits (quota_usage (snd (batch_inspect env0 ''site'' [''u'', ''v'', ''u''] session0)))"
proof -
  have a: "within_limits (quota_usage session0)"
    by (simp add: within_limits_def session0_def initial_quota_def daily_limit_def
        minute_limit_def)
  have b: "fst (check_quota env0 session0)"
    by (simp add: check_quota_sel concrete_quota_defs)
  from a b quota_never_exceeded [OF a, of env0 "''site''" "''u''" True "[''u'', ''v'', ''u'']"]
  show ?thesis by simp
qed

text \<open>
  Claim C10. When \<^verbatim>\<open>inspect_url\<close> raises, the cache is what it was, a stale entry for
  the same key included, and the quota state is the one \<^verbatim>\<open>check_quota\<close> left: no counter
  has been incremented, each is unchanged or reset to 0.
\<close>

theorem failed_inspection_frame:
  assumes "inspect_url e site u use_cache s = (Inl ex, s')"
  shows "cache s' = cache s
    \<and> quota_usage s' = snd (check_quota_at (clock e (clock_reads s' - 1)) (quota_usage s))
    \<and> (daily (quota_usage s') = daily (quota_usage s) \<or> daily (quota_usage s') = 0)
    \<and> (per_minute (quota_usage s') = per_minute (quota_usage s)
         \<or> per_minute (quota_usage s') = 0)
    \<and> slept s' = slept s \<and> progress s' = progress s"
proof -
  have q: "quota_usage s' = snd (check_quota_at (clock e (clock_reads s' - 1)) (quota_usage s))"
    using assms by (rule inspect_url_failure)
  have c: "cache s' = cache s" using assms by (rule inspect_url_failure)
  have d: "daily (snd (check_quota_at t q0)) = daily q0 \<or> daily (snd (check_quota_at t q0)) = 0"
    for t q0
    by (simp add: check_quota_at_def reset_daily_def reset_minute_def Let_def)
  have p: "per_minute (snd (check_quota_at t q0)) = per_minute q0
           \<or> per_minute (snd (check_quota_at t q0)) = 0" for t q0
    by (simp add: check_quota_at_def reset_daily_def reset_minute_def Let_def)
  have sl: "slept s' = slept s" "progress s' = progress s"
    using inspect_url_slept [of e site u use_cache s] assms by simp_all
  from q c sl d [of "clock e (clock_reads s' - 1)" "quota_usage s"]
       p [of "clock e (clock_reads s' - 1)" "quota_usage s"]
  show ?thesis by simp
qed

theorem failed_inspection_frame_witness:
  "fst (inspect_url (env_of (\<lambda>k. 172800000000) (\<lambda>k. forbidden)) ''site'' ''u'' True
      (session_cached 0)) = Inl (ApiError (JStr ''Forbidden''))
   \<and> cache (snd (inspect_url (env_of (\<lambda>k. 172800000000) (\<lambda>k. forbidden)) ''site'' ''u'' True
      (session_cached 0))) ''site:u'' = Some \<lparr>data = JStr ''cached'', timestamp = 0\<rparr>
   \<and> remote_calls (snd (inspect_url (env_of (\<lambda>k. 172800000000) (\<lambda>k. forbidden)) ''site'' ''u''
      True (session_cached 0))) = 1
   \<and> daily (quota_usage (snd (inspect_url (env_of (\<lambda>k. 172800000000) (\<lambda>k. forbidden)) ''site''
      ''u'' True (session_cached 0)))) = 0"
proof -
  let ?e = "env_of (\<lambda>k. 172800000000) (\<lambda>k. forbidden)"
  let ?r = "inspect_url ?e ''site'' ''u'' True (session_cached 0)"
  have f: "fst ?r = Inl (ApiError (JStr ''Forbidden''))"
    by (simp add: run_defs)
  then have eq: "?r = (Inl (ApiError (JStr ''Forbidden'')), snd ?r)"
    by (metis prod.collapse)
  have n: "remote_calls (snd ?r) = 1"
    by (simp add: run_defs)
  have d: "daily (quota_usage (snd ?r)) = 0"
    by (simp add: run_defs)
  have c: "cache (snd ?r) = cache (session_cached 0)"
    using failed_inspection_frame [OF eq] by blast
  from c f n d show ?thesis
    by (simp add: session_cached_def session0_def)
qed







section \<open>Caching and remote errors\<close>

lemma inspect_remote_success:
  assumes "inspect_remote e key site u s = (Inr r, s')"
  shows "s' = s\<lparr>quota_usage :=
             update_quota (snd (check_quota_at (clock e (clock_reads s)) (quota_usage s))),
           clock_reads := clock_reads s + 2, remote_calls := remote_calls s + 1,
           cache := (cache s)(key \<mapsto> \<lparr>data = r, timestamp = clock e (clock_reads s + 1)\<rparr>)\<rparr>"
  using assms
  by (auto simp: inspect_remote_def check_quota_def datetime_now_def Let_def
      split: prod.splits reply.splits if_splits)

lemma inspect_url_disabled:
  "inspect_url e site u False s = inspect_remote e (get_cache_key e site u) site u s"
  by (simp add: inspect_url_def Let_def)

lemma inspect_url_no_entry:
  "cache s (get_cache_key e site u) = None \<Longrightarrow>
   inspect_url e site u uc s = inspect_remote e (get_cache_key e site u) site u s"
  by (simp add: inspect_url_def Let_def)

lemma inspect_url_fresh:
  "cache s (get_cache_key e site u) = Some c \<Longrightarrow>
   clock e (clock_reads s) - timestamp c < one_day \<Longrightarrow>
   inspect_url e site u True s = (Inr (data c), s\<lparr>clock_reads := clock_reads s + 1\<rparr>)"
  by (simp add: inspect_url_def datetime_now_def Let_def)

lemma inspect_url_stale:
  "cache s (get_cache_key e site u) = Some c \<Longrightarrow>
   \<not> clock e (clock_reads s) - timestamp c < one_day \<Longrightarrow>
   inspect_url e site u True s =
     inspect_url e site u False (s\<lparr>clock_reads := clock_reads s + 1\<rparr>)"
  by (simp add: inspect_url_def datetime_now_def Let_def)

lemma inspect_remote_refused:
  assumes "\<not> fst (check_quota e s)"
  shows "inspect_remote e key site u s = (Inl QuotaError, snd (check_quota e s))"
proof -
  obtain ok s1 where c: "check_quota e s = (ok, s1)" by (cases "check_quota e s")
  with assms have "\<not> ok" by simp
  with c show ?thesis by (simp add: inspect_remote_def)
qed

lemma inspect_remote_result:
  assumes "fst (check_quota e s)"
  shows "fst (inspect_remote e key site u s) =
     (case execute e (remote_calls s) (request_body site u) of
        Response r \<Rightarrow> Inr r
      | HttpError body \<Rightarrow> Inl (api_error body)
      | Raised msg \<Rightarrow> Inl (OtherError msg))"
proof -
  obtain ok s1 where c: "check_quota e s = (ok, s1)" by (cases "check_quota e s")
  with assms have ok: "ok" by simp
  from c have "remote_calls s1 = remote_calls s"
    using check_quota_sel(5) [of e s] by simp
  with c ok show ?thesis
    by (simp add: inspect_remote_def Let_def datetime_now_def split: reply.splits)
qed

lemma inspect_remote_called:
  assumes "fst (check_quota e s)"
  shows "remote_calls (snd (inspect_remote e key site u s)) = remote_calls s + 1"
    and "quota_usage (snd (inspect_remote e key site u s)) =
       (if isl (fst (inspect_remote e key site u s)) then quota_usage (snd (check_quota e s))
        else update_quota (quota_usage (snd (check_quota e s))))"
proof -
  obtain ok s1 where c: "check_quota e s = (ok, s1)" by (cases "check_quota e s")
  with assms have ok: "ok" by simp
  from c have r: "remote_calls s1 = remote_calls s"
    using check_quota_sel(5) [of e s] by simp
  from c ok r show "remote_calls (snd (inspect_remote e key site u s)) = remote_calls s + 1"
    by (simp add: inspect_remote_def Let_def datetime_now_def split: reply.splits)
  from c ok show "quota_usage (snd (inspect_remote e key site u s)) =
       (if isl (fst (inspect_remote e key site u s)) then quota_usage (snd (check_quota e s))
        else update_quota (quota_usage (snd (check_quota e s))))"
    by (simp add: inspect_remote_def Let_def datetime_now_def split: reply.splits)
qed

lemma first_call_stores:
  assumes "inspect_url e site u True s = (Inr r, s1)"
    and "remote_calls s1 = remote_calls s + 1"
  shows "cache s1 (get_cache_key e site u) =
           Some \<lparr>data = r, timestamp = clock e (clock_reads s1 - 1)\<rparr>"
    and "quota_usage s1 =
           update_quota (snd (check_quota_at (clock e (clock_reads s1 - 2)) (quota_usage s)))"
proof -
  let ?k = "get_cache_key e site u"
  have "cache s1 ?k = Some \<lparr>data = r, timestamp = clock e (clock_reads s1 - 1)\<rparr>
     \<and> quota_usage s1 =
           update_quota (snd (check_quota_at (clock e (clock_reads s1 - 2)) (quota_usage s)))"
  proof (cases "cache s ?k")
    case None
    with assms(1) have "inspect_remote e ?k site u s = (Inr r, s1)"
      by (simp add: inspect_url_no_entry)
    from inspect_remote_success [OF this] show ?thesis by simp
  next
    case (Some c)
    show ?thesis
    proof (cases "clock e (clock_reads s) - timestamp c < one_day")
      case True
      with Some assms(1) have "s1 = s\<lparr>clock_reads := clock_reads s + 1\<rparr>"
        by (simp add: inspect_url_fresh)
      with assms(2) show ?thesis by simp
    next
      case False
      with Some assms(1)
      have "inspect_remote e ?k site u (s\<lparr>clock_reads := clock_reads s + 1\<rparr>) = (Inr r, s1)"
        by (simp add: inspect_url_stale inspect_url_disabled)
      from inspect_remote_success [OF this] show ?thesis by simp
    qed
  qed
  then show "cache s1 ?k = Some \<lparr>data = r, timestamp = clock e (clock_reads s1 - 1)\<rparr>"
    and "quota_usage s1 =
           update_quota (snd (check_quota_at (clock e (clock_reads s1 - 2)) (quota_usage s)))"
    by simp_all
qed

text \<open>
  Claim C3, as the code has it. \<^verbatim>\<open>inspect_url\<close> is called twice in a row with the same
  site and URL and caching enabled, and the first call is a miss whose remote call
  succeeds: it stores the response with the time read after the call and increments
  both counters once. If the entry is younger than 24 hours at the second call, the
  second call returns the cached response and changes nothing but the clock reading: no
  remote call, no quota change. If the entry is 24 hours old or older, the second call is
  what a call with caching disabled is: when \<^verbatim>\<open>check_quota\<close> refuses it raises the quota
  error without a remote call; otherwise it makes one remote call, and both counters are
  incremented exactly when that call returns a response.
\<close>

theorem repeated_inspection:
  assumes "inspect_url e site u True s = (Inr r, s1)"
    and "remote_calls s1 = remote_calls s + 1"
  shows "cache s1 (get_cache_key e site u) =
           Some \<lparr>data = r, timestamp = clock e (clock_reads s1 - 1)\<rparr>
    \<and> quota_usage s1 =
           update_quota (snd (check_quota_at (clock e (clock_reads s1 - 2)) (quota_usage s)))
    \<and> (clock e (clock_reads s1) - clock e (clock_reads s1 - 1) < one_day \<longrightarrow>
         inspect_url e site u True s1 = (Inr r, s1\<lparr>clock_reads := clock_reads s1 + 1\<rparr>))
    \<and> (clock e (clock_reads s1) - clock e (clock_reads s1 - 1) \<ge> one_day \<longrightarrow>
         inspect_url e site u True s1 =
           inspect_url e site u False (s1\<lparr>clock_reads := clock_reads s1 + 1\<rparr>))
    \<and> (\<not> fst (check_quota e t) \<longrightarrow>
         inspect_url e site u False t = (Inl QuotaError, snd (check_quota e t)))
    \<and> (fst (check_quota e t) \<longrightarrow>
         remote_calls (snd (inspect_url e site u False t)) = remote_calls t + 1
         \<and> quota_usage (snd (inspect_url e site u False t)) =
             (if isl (fst (inspect_url e site u False t))
              then quota_usage (snd (check_quota e t))
              else update_quota (quota_usage (snd (check_quota e t)))))"
proof -
  note st = first_call_stores [OF assms]
  have fresh: "clock e (clock_reads s1) - clock e (clock_reads s1 - 1) < one_day \<longrightarrow>
         inspect_url e site u True s1 = (Inr r, s1\<lparr>clock_reads := clock_reads s1 + 1\<rparr>)"
    using inspect_url_fresh [OF st(1)] by simp
  have stale: "clock e (clock_reads s1) - clock e (clock_reads s1 - 1) \<ge> one_day \<longrightarrow>
         inspect_url e site u True s1 =
           inspect_url e site u False (s1\<lparr>clock_reads := clock_reads s1 + 1\<rparr>)"
    using inspect_url_stale [OF st(1)] by (simp add: not_less)
  have refused: "\<not> fst (check_quota e t) \<longrightarrow>
         inspect_url e site u False t = (Inl QuotaError, snd (check_quota e t))"
    by (simp add: inspect_url_disabled inspect_remote_refused)
  have called: "fst (check_quota e t) \<longrightarrow>
         remote_calls (snd (inspect_url e site u False t)) = remote_calls t + 1
         \<and> quota_usage (snd (inspect_url e site u False t)) =
             (if isl (fst (inspect_url e site u False t))
              then quota_usage (snd (check_quota e t))
              else update_quota (quota_usage (snd (check_quota e t))))"
    using inspect_remote_called [of e t "get_cache_key e site u" site u]
    by (simp only: inspect_url_disabled) blast
  from st fresh stale refused called show ?thesis by blast
qed

theorem repeated_inspection_witness:
  "fst (inspect_url env0 ''site'' ''u'' True session0) = Inr (JObj [])
   \<and> remote_calls (snd (inspect_url env0 ''site'' ''u'' True session0)) = 1
   \<and> clock env0 2 - clock env0 1 < one_day
   \<and> fst (inspect_url env0 ''site'' ''u'' True
        (snd (inspect_url env0 ''site'' ''u'' True session0))) = Inr (JObj [])
   \<and> remote_calls (snd (inspect_url env0 ''site'' ''u'' True
        (snd (inspect_url env0 ''site'' ''u'' True session0)))) = 1
   \<and> daily (quota_usage (snd (inspect_url env0 ''site'' ''u'' True
        (snd (inspect_url env0 ''site'' ''u'' True session0))))) = 1
   \<and> \<not> fst (check_quota env0 (session_with
        \<lparr>daily = 2000, per_minute = 0, last_reset = 0, minute_reset = None\<rparr>))
   \<and> fst (inspect_url env0 ''site'' ''u'' False (session_with
        \<lparr>daily = 2000, per_minute = 0, last_reset = 0, minute_reset = None\<rparr>)) = Inl QuotaError
   \<and> clock (env_of (\<lambda>k. int k * 172800000000) (\<lambda>k. Response (JObj []))) 2
       - clock (env_of (\<lambda>k. int k * 172800000000) (\<lambda>k. Response (JObj []))) 1 \<ge> one_day
   \<and> remote_calls (snd (inspect_url (env_of (\<lambda>k. int k * 172800000000) (\<lambda>k. Response (JObj [])))
        ''site'' ''u'' True
        (snd (inspect_url (env_of (\<lambda>k. int k * 172800000000) (\<lambda>k. Response (JObj [])))
           ''site'' ''u'' True session0)))) = 2
   \<and> per_minute (quota_usage (snd (inspect_url
        (env_of (\<lambda>k. int k * 172800000000) (\<lambda>k. Response (JObj [])))
        ''site'' ''u'' True
        (snd (inspect_url (env_of (\<lambda>k. int k * 172800000000) (\<lambda>k. Response (JObj [])))
           ''site'' ''u'' True session0))))) = 2"
proof -
  let ?full = "session_with \<lparr>daily = 2000, per_minute = 0, last_reset = 0, minute_reset = None\<rparr>"
  let ?r1 = "inspect_url env0 ''site'' ''u'' True session0"
  have f1: "fst ?r1 = Inr (JObj [])" by (simp add: run_defs)
  then have eq1: "?r1 = (Inr (JObj []), snd ?r1)" by (metis prod.collapse)
  have m1: "remote_calls (snd ?r1) = remote_calls session0 + 1" by (simp add: run_defs)
  have c1: "clock_reads (snd ?r1) = 2" by (simp add: run_defs)
  let ?e = "env_of (\<lambda>k. int k * 172800000000) (\<lambda>k. Response (JObj []))"
  let ?r2 = "inspect_url ?e ''site'' ''u'' True session0"
  have f2: "fst ?r2 = Inr (JObj [])" by (simp add: run_defs)
  then have eq2: "?r2 = (Inr (JObj []), snd ?r2)" by (metis prod.collapse)
  have m2: "remote_calls (snd ?r2) = remote_calls session0 + 1" by (simp add: run_defs)
  have c2: "clock_reads (snd ?r2) = 2" by (simp add: run_defs)
  have a: "fst (inspect_url env0 ''site'' ''u'' True (snd ?r1)) = Inr (JObj [])
    \<and> remote_calls (snd (inspect_url env0 ''site'' ''u'' True (snd ?r1))) = 1
    \<and> daily (quota_usage (snd (inspect_url env0 ''site'' ''u'' True (snd ?r1)))) = 1
    \<and> fst (inspect_url env0 ''site'' ''u'' False ?full) = Inl QuotaError"
    using repeated_inspection [OF eq1 m1, of ?full] c1
    by (simp add: run_defs)
  have b: "remote_calls (snd (inspect_url ?e ''site'' ''u'' True (snd ?r2))) = 2
    \<and> per_minute (quota_usage (snd (inspect_url ?e ''site'' ''u'' True (snd ?r2)))) = 2"
    using repeated_inspection [OF eq2 m2, of "(snd ?r2)\<lparr>clock_reads := clock_reads (snd ?r2) + 1\<rparr>"] c2
    by (simp add: run_defs)
  have q: "\<not> fst (check_quota env0 ?full)" by (simp add: run_defs)
  have t1: "clock env0 2 - clock env0 1 < one_day" by (simp add: run_defs)
  have t2: "clock ?e 2 - clock ?e 1 \<ge> one_day" by (simp add: run_defs)
  from f1 m1 a b q t1 t2 show ?thesis
    by (simp add: session0_def)
qed

text \<open>
  Claim C3 as stated fails: an entry that is two days old at the second call is treated
  as a miss, but the provider refuses the new remote call, the call raises and no
  counter is incremented.
\<close>

theorem repeated_inspection_counterexample:
  "clock env_slow 2 - clock env_slow 1 \<ge> one_day
   \<and> fst (inspect_url env_slow ''site'' ''u'' True session0) = Inr (JObj [])
   \<and> per_minute (quota_usage (snd (inspect_url env_slow ''site'' ''u'' True session0))) = 1
   \<and> fst (inspect_url env_slow ''site'' ''u'' True
        (snd (inspect_url env_slow ''site'' ''u'' True session0)))
      = Inl (ApiError (JStr ''Forbidden''))
   \<and> remote_calls (snd (inspect_url env_slow ''site'' ''u'' True
        (snd (inspect_url env_slow ''site'' ''u'' True session0)))) = 2
   \<and> per_minute (quota_usage (snd (inspect_url env_slow ''site'' ''u'' True
        (snd (inspect_url env_slow ''site'' ''u'' True session0))))) = 1
   \<and> daily (quota_usage (snd (inspect_url env_slow ''site'' ''u'' True
        (snd (inspect_url env_slow ''site'' ''u'' True session0))))) = 0"
  by (simp add: run_defs)

lemma inspect_url_reaches_remote:
  assumes "use_cache \<longrightarrow>
      (case cache s (get_cache_key e site u) of None \<Rightarrow> True
       | Some c \<Rightarrow> clock e (clock_reads s) - timestamp c \<ge> one_day)"
  shows "inspect_url e site u use_cache s =
     inspect_remote e (get_cache_key e site u) site u
       (if use_cache \<and> cache s (get_cache_key e site u) \<noteq> None
        then s\<lparr>clock_reads := clock_reads s + 1\<rparr> else s)"
  using assms
  by (auto simp: inspect_url_def datetime_now_def Let_def split: option.splits)

text \<open>
  Claim C5, as the code has it. Whenever \<^verbatim>\<open>inspect_url\<close> reaches the remote call
  (caching is disabled, or no entry is stored for the key, or the stored entry is 24
  hours old or older; and \<^verbatim>\<open>check_quota\<close> permits): when the remote call raises
  HttpError with a body that parses to a dictionary, \<^verbatim>\<open>inspect_url\<close> raises the API
  error with the \<^verbatim>\<open>message\<close> of the body's \<^verbatim>\<open>error\<close> dictionary, or with
  \<^verbatim>\<open>Unknown error\<close> when that dictionary has no message or the body has no \<^verbatim>\<open>error\<close>;
  when the remote call raises any other exception, that exception leaves \<^verbatim>\<open>inspect_url\<close>
  as it is. A stale entry is not served in place of the error.
\<close>

theorem http_error_message:
  assumes "use_cache \<longrightarrow>
      (case cache s (get_cache_key e site u) of None \<Rightarrow> True
       | Some c \<Rightarrow> clock e (clock_reads s) - timestamp c \<ge> one_day)"
    and "fst (check_quota e
      (if use_cache \<and> cache s (get_cache_key e site u) \<noteq> None
       then s\<lparr>clock_reads := clock_reads s + 1\<rparr> else s))"
  shows "(\<forall>d ed. execute e (remote_calls s) (request_body site u) = HttpError (Some (JObj d))
            \<and> map_of d ''error'' = Some (JObj ed) \<longrightarrow>
          fst (inspect_url e site u use_cache s) =
            Inl (ApiError (dict_get ed ''message'' (JStr ''Unknown error''))))
    \<and> (\<forall>d. execute e (remote_calls s) (request_body site u) = HttpError (Some (JObj d))
            \<and> map_of d ''error'' = None \<longrightarrow>
          fst (inspect_url e site u use_cache s) = Inl (ApiError (JStr ''Unknown error'')))
    \<and> (\<forall>msg. execute e (remote_calls s) (request_body site u) = Raised msg \<longrightarrow>
          fst (inspect_url e site u use_cache s) = Inl (OtherError msg))"
proof -
  let ?s0 = "if use_cache \<and> cache s (get_cache_key e site u) \<noteq> None
       then s\<lparr>clock_reads := clock_reads s + 1\<rparr> else s"
  have r: "remote_calls ?s0 = remote_calls s" by simp
  have "inspect_url e site u use_cache s = inspect_remote e (get_cache_key e site u) site u ?s0"
    using assms(1) by (rule inspect_url_reaches_remote)
  then show ?thesis
    by (simp only: inspect_remote_result [OF assms(2)] r)
       (simp add: api_error_def dict_get_def)
qed

theorem http_error_message_witness:
  "cache session0 (get_cache_key (env_reply forbidden) ''site'' ''u'') = None
   \<and> fst (check_quota (env_reply forbidden) session0)
   \<and> fst (inspect_url (env_reply forbidden) ''site'' ''u'' True session0)
       = Inl (ApiError (JStr ''Forbidden''))
   \<and> fst (inspect_url (env_reply (HttpError (Some (JObj [])))) ''site'' ''u'' True session0)
       = Inl (ApiError (JStr ''Unknown error''))
   \<and> fst (inspect_url (env_reply (Raised ''timed out'')) ''site'' ''u'' True session0)
       = Inl (OtherError ''timed out'')
   \<and> cache (session_cached 0)
        (get_cache_key (env_of (\<lambda>k. 172800000000) (\<lambda>k. forbidden)) ''site'' ''u'')
       = Some \<lparr>data = JStr ''cached'', timestamp = 0\<rparr>
   \<and> clock (env_of (\<lambda>k. 172800000000) (\<lambda>k. forbidden)) (clock_reads (session_cached 0)) - 0
       \<ge> one_day
   \<and> fst (inspect_url (env_of (\<lambda>k. 172800000000) (\<lambda>k. forbidden)) ''site'' ''u'' True
        (session_cached 0)) = Inl (ApiError (JStr ''Forbidden''))
   \<and> fst (inspect_url (env_reply forbidden) ''site'' ''u'' False (session_cached 0))
       = Inl (ApiError (JStr ''Forbidden''))"
proof -
  let ?slow = "env_of (\<lambda>k. 172800000000) (\<lambda>k. forbidden)"
  have c: "cache session0 (get_cache_key e ''site'' ''u'') = None" for e
    by (simp add: session0_def)
  have q: "fst (check_quota (env_reply r) session0)" for r
    by (simp add: run_defs)
  have k: "cache (session_cached 0) (get_cache_key ?slow ''site'' ''u'')
       = Some \<lparr>data = JStr ''cached'', timestamp = 0\<rparr>"
    by (simp add: run_defs)
  have t: "clock ?slow (clock_reads (session_cached 0)) - 0 \<ge> one_day"
    by (simp add: run_defs)
  have q2: "fst (check_quota ?slow
      (if True \<and> cache (session_cached 0) (get_cache_key ?slow ''site'' ''u'') \<noteq> None
       then (session_cached 0)\<lparr>clock_reads := clock_reads (session_cached 0) + 1\<rparr>
       else session_cached 0))"
    by (simp add: run_defs)
  have q3: "fst (check_quota (env_reply forbidden)
      (if False \<and> cache (session_cached 0) (get_cache_key (env_reply forbidden) ''site'' ''u'') \<noteq> None
       then (session_cached 0)\<lparr>clock_reads := clock_reads (session_cached 0) + 1\<rparr>
       else session_cached 0))"
    by (simp add: run_defs)
  have a1: "fst (inspect_url (env_reply forbidden) ''site'' ''u'' True session0)
       = Inl (ApiError (JStr ''Forbidden''))"
    using http_error_message [where use_cache = True and s = session0 and e = "env_reply forbidden"
        and site = "''site''" and u = "''u''"] c q
    by (simp add: env_reply_def env0_def forbidden_def dict_get_def)
  have a2: "fst (inspect_url (env_reply (HttpError (Some (JObj [])))) ''site'' ''u'' True session0)
       = Inl (ApiError (JStr ''Unknown error''))"
    using http_error_message [where use_cache = True and s = session0
        and e = "env_reply (HttpError (Some (JObj [])))" and site = "''site''" and u = "''u''"] c q
    by (simp add: env_reply_def env0_def)
  have a3: "fst (inspect_url (env_reply (Raised ''timed out'')) ''site'' ''u'' True session0)
       = Inl (OtherError ''timed out'')"
    using http_error_message [where use_cache = True and s = session0
        and e = "env_reply (Raised ''timed out'')" and site = "''site''" and u = "''u''"] c q
    by (simp add: env_reply_def env0_def)
  have a4: "fst (inspect_url ?slow ''site'' ''u'' True (session_cached 0))
       = Inl (ApiError (JStr ''Forbidden''))"
    using http_error_message [where use_cache = True and s = "session_cached 0" and e = ?slow
        and site = "''site''" and u = "''u''", OF _ q2] k t
    by (simp add: env_of_def forbidden_def dict_get_def request_body_def)
  have a5: "fst (inspect_url (env_reply forbidden) ''site'' ''u'' False (session_cached 0))
       = Inl (ApiError (JStr ''Forbidden''))"
    using http_error_message [where use_cache = False and s = "session_cached 0"
        and e = "env_reply forbidden" and site = "''site''" and u = "''u''", OF _ q3]
    by (simp add: env_reply_def env0_def forbidden_def dict_get_def)
  from c q k t a1 a2 a3 a4 a5 show ?thesis by blast
qed

text \<open>
  Claim C5 as stated fails: a failure that is not an HttpError is not given the API error
  message, a body that does not parse makes the handler raise ValueError, and a body that
  parses to a list makes it raise AttributeError.
\<close>

theorem http_error_message_counterexample:
  "fst (inspect_url (env_reply (Raised ''timed out'')) ''site'' ''u'' True session0)
     = Inl (OtherError ''timed out'')
   \<and> fst (inspect_url (env_reply (HttpError None)) ''site'' ''u'' True session0)
     = Inl ValueError
   \<and> fst (inspect_url (env_reply (HttpError (Some (JArr [])))) ''site'' ''u'' True session0)
     = Inl AttributeError"
  by (simp add: run_defs)

text \<open>
  Claim C6 does not hold of the code: \<^verbatim>\<open>batch_inspect\<close> has no cache setting to pass on
  and calls \<^verbatim>\<open>inspect_url\<close> with caching enabled. Whatever the run is configured with,
  a URL with a fresh cache entry gets the cached response and no remote call is made.
\<close>

theorem batch_inspect_always_caches:
  "fst (batch_inspect (env_reply (Response full_response)) ''site'' [''u''] (session_cached 0))
     = [Success ''u'' (JStr ''cached'') 1000000]
   \<and> remote_calls (snd (batch_inspect (env_reply (Response full_response)) ''site'' [''u'']
        (session_cached 0))) = 0"
  by (simp add: run_defs)

end
